theory Spec2Isabelle
  imports Main "HOL-Library.AList" "HOL-Library.Char_ord" "HOL-Library.List_Lexorder"
begin

section \<open>The values exchanged by internal/reflect/struct.go\<close>

subsection \<open>Paths\<close>

text \<open>
  Modelled from the spec: the path package is not under src/. A Path is an immutable,
  appendable sequence of steps used for error attribution; \<open>AtName\<close> extends it by
  an attribute name.
\<close>

datatype path_step = PathStepAttributeName string | PathStepOther string

type_synonym path = "path_step list"

definition AtName :: "path \<Rightarrow> string \<Rightarrow> path" where
  "AtName p n = p @ [PathStepAttributeName n]"

subsection \<open>Dynamic values (tftypes)\<close>

text \<open>
  A tftypes.Type is an object type with named attribute types, or some other type
  (\<open>'p\<close>). A tftypes.Value carries its type and its data: null, unknown, the
  attribute map of an object, or other data (\<open>'d\<close>). \<open>ZeroValue\<close> is the
  typeless \<open>tftypes.Value{}\<close> that indexing a Go map yields at a missing key.
  Go maps are association lists here: keys are looked up with \<open>map_of\<close>, written
  with \<open>AList.update\<close> and ranged over in list order.
\<close>

datatype 'p tftype = Object "(string \<times> 'p tftype) list" | OtherType 'p

datatype ('p, 'd) tfvalue =
    Value "'p tftype" "('p, 'd) tfdata"
  | ZeroValue
and ('p, 'd) tfdata =
    Null
  | Unknown
  | Attributes "(string \<times> ('p, 'd) tfvalue) list"
  | OtherData 'd

text \<open>\<open>t.Is(tftypes.Object{})\<close>: the type is an object type, whatever its attributes.\<close>

fun Is_Object :: "'p tftype \<Rightarrow> bool" where
  "Is_Object (Object _) = True"
| "Is_Object (OtherType _) = False"

text \<open>
  \<open>tftypes.NewValue(tftypes.Object{AttributeTypes: objTypes}, objValues)\<close>.
\<close>

definition NewValue_Object ::
  "(string \<times> 'p tftype) list \<Rightarrow> (string \<times> ('p, 'd) tfvalue) list \<Rightarrow> ('p, 'd) tfvalue" where
  "NewValue_Object objTypes objValues = Value (Object objTypes) (Attributes objValues)"

subsection \<open>Errors and diagnostics\<close>

text \<open>
  The errors built with \<open>fmt.Errorf\<close> in struct.go, one constructor per format
  string, holding the format's arguments; \<open>ExternalError\<close> is an error returned by
  a collaborator.
\<close>

datatype 'p err =
    ExpectedStructType string
    \<comment> \<open>"expected a struct type, got %s", target.Type()\<close>
  | MustBeAnObject "'p tftype"
    \<comment> \<open>"cannot reflect %s into a struct, must be an object", object.Type().String()\<close>
  | MustBeTypeWithAttributeTypes string
    \<comment> \<open>"cannot reflect object using type information provided by %T, %T must be an attr.TypeWithAttributeTypes"\<close>
  | Mismatch string
    \<comment> \<open>"mismatch between struct and object: %s"\<close>
  | CouldNotFindTypeInformation string
    \<comment> \<open>"could not find type information for attribute in supplied attr.Type %T"\<close>
  | CouldntFindTypeInformationAt path string
    \<comment> \<open>"couldn't find type information for attribute at %s in supplied attr.Type %T"\<close>
  | ExternalError string

datatype severity = SeverityError | SeverityWarning

text \<open>
  Modelled from the spec: the diag package and DiagIntoIncompatibleType are not under
  src/. A diagnostic is an error or warning record attributed to a Path; the
  target/type-incompatible diagnostic, the attribute error and the two conversion-error
  diagnostics are fatal (error severity). \<open>Diagnostic\<close> is any other diagnostic, as
  the collaborators return them.
\<close>

datatype ('p, 'd) diagnostic =
    DiagIntoIncompatibleType path "('p, 'd) tfvalue" string "'p err"
    \<comment> \<open>diag.WithPath(path, DiagIntoIncompatibleType{Val, TargetType, Err})\<close>
  | AttributeError path string "'p err"
    \<comment> \<open>diag.NewAttributeErrorDiagnostic(path, summary, detail ending in err.Error())\<close>
  | ToTerraformValueErrorDiag "'p err" path
  | ValueFromTerraformErrorDiag "'p err" path
  | Diagnostic severity path string

fun Severity :: "('p, 'd) diagnostic \<Rightarrow> severity" where
  "Severity (DiagIntoIncompatibleType _ _ _ _) = SeverityError"
| "Severity (AttributeError _ _ _) = SeverityError"
| "Severity (ToTerraformValueErrorDiag _ _) = SeverityError"
| "Severity (ValueFromTerraformErrorDiag _ _) = SeverityError"
| "Severity (Diagnostic s _ _) = s"

type_synonym ('p, 'd) diagnostics = "('p, 'd) diagnostic list"

definition HasError :: "('p, 'd) diagnostics \<Rightarrow> bool" where
  "HasError diags = list_ex (\<lambda>d. Severity d = SeverityError) diags"

text \<open>
  Modelled from the spec: \<open>Diagnostics.Append\<close> is not under src/. The collection is
  ordered and accumulated; a diagnostic already in the collection is not added again.
\<close>

fun Append :: "('p, 'd) diagnostics \<Rightarrow> ('p, 'd) diagnostics \<Rightarrow> ('p, 'd) diagnostics" where
  "Append diags [] = diags"
| "Append diags (d # ds) = Append (if d \<in> set diags then diags else diags @ [d]) ds"

definition AddAttributeError ::
  "('p, 'd) diagnostics \<Rightarrow> path \<Rightarrow> string \<Rightarrow> 'p err \<Rightarrow> ('p, 'd) diagnostics" where
  "AddAttributeError diags p summary e = Append diags [AttributeError p summary e]"

subsection \<open>Native records (reflect)\<close>

text \<open>
  Modelled from the spec: typeFields and fieldByIndex are not under src/. A Record Type
  is a struct whose fields each carry an external name tag or the opt-out marker. A
  struct value lists its fields in declaration order, each with its tag, the zero value
  of its Go type and its current value (\<open>'g\<close>). Any other reflect.Value is
  \<open>OtherValue\<close>, with the name of its type.
\<close>

datatype ftag = Tagged string | OptOut

datatype 'g struct_field = StructField (tag: ftag) (zero: 'g) (val: 'g)

datatype 'g rvalue =
    StructValue string "'g struct_field list"
  | OtherValue string 'g

datatype kind = KStruct | KOther

fun Kind :: "'g rvalue \<Rightarrow> kind" where
  "Kind (StructValue _ _) = KStruct"
| "Kind (OtherValue _ _) = KOther"

text \<open>\<open>target.Type()\<close> printed with \<open>%s\<close>.\<close>

fun Type_String :: "'g rvalue \<Rightarrow> string" where
  "Type_String (StructValue n _) = n"
| "Type_String (OtherValue n _) = n"

fun struct_fields :: "'g rvalue \<Rightarrow> 'g struct_field list" where
  "struct_fields (StructValue _ fs) = fs"
| "struct_fields (OtherValue _ _) = []"

text \<open>\<open>reflect.New(target.Type()).Elem()\<close>: every field holds its zero value.\<close>

fun New_Elem :: "'g rvalue \<Rightarrow> 'g rvalue" where
  "New_Elem (StructValue n fs) = StructValue n (map (\<lambda>f. StructField (tag f) (zero f) (zero f)) fs)"
| "New_Elem (OtherValue n g) = OtherValue n g"

datatype field = Field (name: string) (index: nat)

record fields =
  list :: "field list"
  nameIndex :: "(string \<times> nat) list"

text \<open>
  The Field Mapper: the (external name, position) pairs of the tagged fields, in
  declaration order, opt-out fields excluded; \<open>nameIndex\<close> maps each name to its
  position in \<open>list\<close>.
\<close>

fun tagged_from :: "nat \<Rightarrow> 'g struct_field list \<Rightarrow> field list" where
  "tagged_from i [] = []"
| "tagged_from i (f # fs) =
     (case tag f of
        Tagged n \<Rightarrow> Field n i # tagged_from (Suc i) fs
      | OptOut \<Rightarrow> tagged_from (Suc i) fs)"

fun index_names :: "nat \<Rightarrow> field list \<Rightarrow> (string \<times> nat) list \<Rightarrow> (string \<times> nat) list" where
  "index_names i [] m = m"
| "index_names i (f # fs) m = index_names (Suc i) fs (AList.update (name f) i m)"

definition typeFields :: "'g rvalue \<Rightarrow> fields" where
  "typeFields v =
     (let l = tagged_from 0 (struct_fields v)
      in \<lparr>list = l, nameIndex = index_names 0 l []\<rparr>)"

fun fieldByIndex :: "'g rvalue \<Rightarrow> nat \<Rightarrow> 'g" where
  "fieldByIndex (StructValue _ fs) i = val (fs ! i)"
| "fieldByIndex (OtherValue _ g) i = g"

text \<open>\<open>fieldByIndex(result, i).Set(x)\<close>.\<close>

fun Set_field :: "'g rvalue \<Rightarrow> nat \<Rightarrow> 'g \<Rightarrow> 'g rvalue" where
  "Set_field (StructValue n fs) i x =
     StructValue n (fs[i := StructField (tag (fs ! i)) (zero (fs ! i)) x])"
| "Set_field (OtherValue n g) i x = OtherValue n g"

subsection \<open>Strings\<close>

text \<open>\<open>strings.Join(elems, sep)\<close>.\<close>

fun Join :: "string list \<Rightarrow> string \<Rightarrow> string" where
  "Join [] sep = []"
| "Join [x] sep = x"
| "Join (x # y # ys) sep = x @ sep @ Join (y # ys) sep"

text \<open>
  Modelled from the spec: commaSeparatedString is not under src/. The names are listed
  sorted and comma-joined.
\<close>

definition commaSeparatedString :: "string list \<Rightarrow> string" where
  "commaSeparatedString xs = Join (sort xs) '', ''"


section \<open>The collaborators\<close>

text \<open>
  \<open>Value.As(&objectFields)\<close> with a \<open>map[string]tftypes.Value\<close> target (tftypes is
  an external library): an unknown value is an error, a null value gives the empty map,
  an object gives its attribute map.
\<close>

fun As_map :: "('p, 'd) tfvalue \<Rightarrow> 'p err + (string \<times> ('p, 'd) tfvalue) list" where
  "As_map (Value t Unknown) = Inl (ExternalError ''unmarshaling unknown values is not supported'')"
| "As_map (Value t Null) = Inr []"
| "As_map (Value t (Attributes m)) = Inr m"
| "As_map (Value t (OtherData d)) = Inl (ExternalError ''expected map[string]tftypes.Value'')"
| "As_map ZeroValue = Inr []"

text \<open>\<open>m[k]\<close> on a \<open>map[string]tftypes.Value\<close>: the zero value at a missing key.\<close>

definition map_index :: "(string \<times> ('p, 'd) tfvalue) list \<Rightarrow> string \<Rightarrow> ('p, 'd) tfvalue" where
  "map_index m k = (case map_of m k of Some v \<Rightarrow> v | None \<Rightarrow> ZeroValue)"

text \<open>
  The schema type \<open>typ\<close>. An attr.Type value for an attribute is \<open>'t option\<close>,
  \<open>None\<close> the nil interface; the attribute-type directory maps names to them. A
  type that is an attr.TypeWithAttributeTypes has the directory (\<open>AttributeTypes()\<close>)
  and the reconstruction \<open>WithAttributeTypes(attrTypes).ValueFromTerraform(ctx, v)\<close>;
  \<open>Validate\<close> is \<open>Some\<close> when it is also an xattr.TypeWithValidate.
  \<open>type_name\<close> is what \<open>%T\<close> prints.
\<close>

record ('t, 'p, 'd, 'av) type_with_attribute_types =
  type_name :: string
  AttributeTypes :: "string \<rightharpoonup> 't option"
  Validate :: "(('p, 'd) tfvalue \<Rightarrow> path \<Rightarrow> ('p, 'd) diagnostics) option"
  ValueFromTerraform :: "(string \<rightharpoonup> 't option) \<Rightarrow> ('p, 'd) tfvalue \<Rightarrow> 'p err + 'av"

datatype ('t, 'p, 'd, 'av) attr_type =
    PlainType string
  | TypeWithAttributeTypes "('t, 'p, 'd, 'av) type_with_attribute_types"

fun attr_type_name :: "('t, 'p, 'd, 'av) attr_type \<Rightarrow> string" where
  "attr_type_name (PlainType n) = n"
| "attr_type_name (TypeWithAttributeTypes t) = type_name t"

text \<open>
  The per-field dispatchers BuildValue and FromValue (not under src/) and the methods
  of the attribute types and values are parameters of the engines.
\<close>

record ('t, 'p, 'd, 'g, 'o, 'av) collaborators =
  BuildValue :: "'t option \<Rightarrow> ('p, 'd) tfvalue \<Rightarrow> 'g \<Rightarrow> 'o \<Rightarrow> path \<Rightarrow> 'g \<times> ('p, 'd) diagnostics"
  FromValue :: "'t option \<Rightarrow> 'g \<Rightarrow> path \<Rightarrow> 'av \<times> ('p, 'd) diagnostics"
  TerraformType :: "'t \<Rightarrow> 'p tftype"
  ToTerraformValue :: "'av \<Rightarrow> 'p err + ('p, 'd) tfvalue"

text \<open>The calls an engine makes to its collaborators, in the order it makes them.\<close>

datatype ('t, 'p, 'd, 'g, 'o, 'av) call =
    BuildValueCall "'t option" "('p, 'd) tfvalue" 'g 'o path
  | FromValueCall "'t option" 'g path
  | ToTerraformValueCall 'av
  | ValidateCall "('p, 'd) tfvalue" path
  | ValueFromTerraformCall "('p, 'd) tfvalue"

datatype 'a outcome = Panics | Returns 'a

section \<open>Struct: dynamic object to native record\<close>

record ('t, 'p, 'd, 'g, 'o, 'av) struct_result =
  ret :: "'g rvalue"
  diags :: "('p, 'd) diagnostics"
  calls :: "('t, 'p, 'd, 'g, 'o, 'av) call list"

text \<open>The loop of lines 111-130, on the fields still to convert.\<close>

fun Struct_loop ::
  "('t, 'p, 'd, 'g, 'o, 'av) collaborators \<Rightarrow> string \<Rightarrow> (string \<rightharpoonup> 't option) \<Rightarrow>
   ('p, 'd) tfvalue \<Rightarrow> (string \<times> ('p, 'd) tfvalue) list \<Rightarrow> 'g rvalue \<Rightarrow> 'o \<Rightarrow> path \<Rightarrow>
   field list \<Rightarrow> ('t, 'p, 'd, 'g, 'o, 'av) struct_result \<Rightarrow>
   ('t, 'p, 'd, 'g, 'o, 'av) struct_result" where
  "Struct_loop c tn attrTypes object objectFields target opts p [] st = st"
| "Struct_loop c tn attrTypes object objectFields target opts p (f # rest) st =
     (case attrTypes (name f) of
        None \<Rightarrow>
          \<lparr>ret = target,
           diags = Append (diags st)
             [DiagIntoIncompatibleType p object (Type_String target) (CouldNotFindTypeInformation tn)],
           calls = calls st\<rparr>
      | Some attrType \<Rightarrow>
          (let structField = fieldByIndex (ret st) (index f);
               (fieldVal, fieldValDiags) =
                  BuildValue c attrType (map_index objectFields (name f)) structField opts
                    (AtName p (name f));
               calls' = calls st @
                  [BuildValueCall attrType (map_index objectFields (name f)) structField opts
                    (AtName p (name f))];
               diags' = Append (diags st) fieldValDiags
           in if HasError diags' then \<lparr>ret = target, diags = diags', calls = calls'\<rparr>
              else Struct_loop c tn attrTypes object objectFields target opts p rest
                     \<lparr>ret = Set_field (ret st) (index f) fieldVal, diags = diags', calls = calls'\<rparr>))"

text \<open>Lines 79-89: the two lists of names without a counterpart.\<close>

definition objectMissing :: "fields \<Rightarrow> (string \<times> 'v) list \<Rightarrow> string list" where
  "objectMissing targetFields objectFields =
     filter (\<lambda>field. map_of objectFields field = None) (map fst (nameIndex targetFields))"

definition targetMissing :: "fields \<Rightarrow> (string \<times> 'v) list \<Rightarrow> string list" where
  "targetMissing targetFields objectFields =
     filter (\<lambda>field. map_of (nameIndex targetFields) field = None) (map fst objectFields)"

text \<open>Lines 91-101: the text of the mismatch error.\<close>

definition missing_message :: "string list \<Rightarrow> string list \<Rightarrow> string" where
  "missing_message om tm =
     Join
       ((if om \<noteq> [] then
           [''Struct defines fields not found in object: '' @ commaSeparatedString om @ ''.'']
         else []) @
        (if tm \<noteq> [] then
           [''Object defines fields not found in struct: '' @ commaSeparatedString tm @ ''.'']
         else []))
       '' ''"

definition Struct ::
  "('t, 'p, 'd, 'g, 'o, 'av) collaborators \<Rightarrow> ('t, 'p, 'd, 'av) attr_type \<Rightarrow>
   ('p, 'd) tfvalue \<Rightarrow> 'g rvalue \<Rightarrow> 'o \<Rightarrow> path \<Rightarrow>
   ('t, 'p, 'd, 'g, 'o, 'av) struct_result outcome" where
  "Struct c typ object target opts p =
     (let incompatible = (\<lambda>e.
            Returns \<lparr>ret = target,
                     diags = Append [] [DiagIntoIncompatibleType p object (Type_String target) e],
                     calls = []\<rparr>)
      in if Kind target \<noteq> KStruct then incompatible (ExpectedStructType (Type_String target))
         else case object of
           ZeroValue \<Rightarrow> Panics
         | Value object_type object_data \<Rightarrow>
             if \<not> Is_Object object_type then incompatible (MustBeAnObject object_type)
             else case typ of
               PlainType tn \<Rightarrow> incompatible (MustBeTypeWithAttributeTypes tn)
             | TypeWithAttributeTypes attrsType \<Rightarrow>
                 (case As_map object of
                    Inl e \<Rightarrow> incompatible e
                  | Inr objectFields \<Rightarrow>
                      (let targetFields = typeFields target;
                           om = objectMissing targetFields objectFields;
                           tm = targetMissing targetFields objectFields
                       in if om \<noteq> [] \<or> tm \<noteq> [] then
                            incompatible (Mismatch (missing_message om tm))
                          else
                            Returns
                              (Struct_loop c (type_name attrsType) (AttributeTypes attrsType)
                                 object objectFields target opts p (list targetFields)
                                 \<lparr>ret = New_Elem target, diags = [], calls = []\<rparr>))))"


section \<open>FromStruct: native record to dynamic object\<close>

record ('t, 'p, 'd, 'g, 'o, 'av) from_result =
  attr_value :: "'av option"
  fdiags :: "('p, 'd) diagnostics"
  fcalls :: "('t, 'p, 'd, 'g, 'o, 'av) call list"

text \<open>The state of the loop of lines 151-189: the two maps, the diagnostics, the calls.\<close>

record ('t, 'p, 'd, 'g, 'o, 'av) from_state =
  objTypes :: "(string \<times> 'p tftype) list"
  objValues :: "(string \<times> ('p, 'd) tfvalue) list"
  sdiags :: "('p, 'd) diagnostics"
  scalls :: "('t, 'p, 'd, 'g, 'o, 'av) call list"

definition summary :: string where
  "summary = ''Value Conversion Error''"

text \<open>
  One iteration: \<open>Inl\<close> is a return from inside the loop, \<open>Inr\<close> the state the
  next iteration starts from.
\<close>

definition FromStruct_field ::
  "('t, 'p, 'd, 'g, 'o, 'av) collaborators \<Rightarrow> ('t, 'p, 'd, 'av) type_with_attribute_types \<Rightarrow>
   'g rvalue \<Rightarrow> path \<Rightarrow> field \<Rightarrow> ('t, 'p, 'd, 'g, 'o, 'av) from_state \<Rightarrow>
   ('t, 'p, 'd, 'g, 'o, 'av) from_result + ('t, 'p, 'd, 'g, 'o, 'av) from_state" where
  "FromStruct_field c typ v p0 f st =
     (let attrTypes = AttributeTypes typ;
          p = AtName p0 (name f);
          fieldValue = fieldByIndex v (index f);
          declared = (case attrTypes (name f) of None \<Rightarrow> None | Some t \<Rightarrow> t);
          (attrVal, attrValDiags) = FromValue c declared fieldValue p;
          calls1 = scalls st @ [FromValueCall declared fieldValue p];
          diags1 = Append (sdiags st) attrValDiags
      in if HasError diags1 then Inl \<lparr>attr_value = None, fdiags = diags1, fcalls = calls1\<rparr>
         else case declared of
           None \<Rightarrow>
             Inl \<lparr>attr_value = None,
                  fdiags = AddAttributeError diags1 p summary
                             (CouldntFindTypeInformationAt p (type_name typ)),
                  fcalls = calls1\<rparr>
         | Some attrType \<Rightarrow>
             (let objTypes' = AList.update (name f) (TerraformType c attrType) (objTypes st);
                  calls2 = calls1 @ [ToTerraformValueCall attrVal]
              in case ToTerraformValue c attrVal of
                   Inl e \<Rightarrow>
                     Inl \<lparr>attr_value = None, fdiags = diags1 @ [ToTerraformValueErrorDiag e p],
                          fcalls = calls2\<rparr>
                 | Inr tfObjVal \<Rightarrow>
                     (case Validate typ of
                        Some validate \<Rightarrow>
                          (let diags2 = Append diags1 (validate tfObjVal p);
                               calls3 = calls2 @ [ValidateCall tfObjVal p]
                           in if HasError diags2 then
                                Inl \<lparr>attr_value = None, fdiags = diags2, fcalls = calls3\<rparr>
                              else
                                Inr \<lparr>objTypes = objTypes',
                                     objValues = AList.update (name f) tfObjVal (objValues st),
                                     sdiags = diags2, scalls = calls3\<rparr>)
                      | None \<Rightarrow>
                          Inr \<lparr>objTypes = objTypes',
                               objValues = AList.update (name f) tfObjVal (objValues st),
                               sdiags = diags1, scalls = calls2\<rparr>)))"

fun FromStruct_loop ::
  "('t, 'p, 'd, 'g, 'o, 'av) collaborators \<Rightarrow> ('t, 'p, 'd, 'av) type_with_attribute_types \<Rightarrow>
   'g rvalue \<Rightarrow> path \<Rightarrow> field list \<Rightarrow> ('t, 'p, 'd, 'g, 'o, 'av) from_state \<Rightarrow>
   ('t, 'p, 'd, 'g, 'o, 'av) from_result + ('t, 'p, 'd, 'g, 'o, 'av) from_state" where
  "FromStruct_loop c typ v p0 [] st = Inr st"
| "FromStruct_loop c typ v p0 (f # rest) st =
     (case FromStruct_field c typ v p0 f st of
        Inl r \<Rightarrow> Inl r
      | Inr st' \<Rightarrow> FromStruct_loop c typ v p0 rest st')"

text \<open>Lines 191-209: assembling, validating and reconstructing the object.\<close>

definition FromStruct_finish ::
  "('t, 'p, 'd, 'av) type_with_attribute_types \<Rightarrow> path \<Rightarrow>
   ('t, 'p, 'd, 'g, 'o, 'av) from_state \<Rightarrow> ('t, 'p, 'd, 'g, 'o, 'av) from_result" where
  "FromStruct_finish typ p0 st =
     (let tfVal = NewValue_Object (objTypes st) (objValues st);
          (diags1, calls1) =
             (case Validate typ of
                Some validate \<Rightarrow>
                  (Append (sdiags st) (validate tfVal p0), scalls st @ [ValidateCall tfVal p0])
              | None \<Rightarrow> (sdiags st, scalls st))
      in if Validate typ \<noteq> None \<and> HasError diags1 then
           \<lparr>attr_value = None, fdiags = diags1, fcalls = calls1\<rparr>
         else
           (let calls2 = calls1 @ [ValueFromTerraformCall tfVal]
            in case ValueFromTerraform typ (AttributeTypes typ) tfVal of
                 Inl e \<Rightarrow>
                   \<lparr>attr_value = None, fdiags = diags1 @ [ValueFromTerraformErrorDiag e p0],
                    fcalls = calls2\<rparr>
               | Inr r \<Rightarrow> \<lparr>attr_value = Some r, fdiags = diags1, fcalls = calls2\<rparr>))"

text \<open>Lines 142-144: no diagnostics, two empty maps.\<close>

definition initial :: "('t, 'p, 'd, 'g, 'o, 'av) from_state" where
  "initial = \<lparr>objTypes = [], objValues = [], sdiags = [], scalls = []\<rparr>"

definition FromStruct ::
  "('t, 'p, 'd, 'g, 'o, 'av) collaborators \<Rightarrow> ('t, 'p, 'd, 'av) type_with_attribute_types \<Rightarrow>
   'g rvalue \<Rightarrow> path \<Rightarrow> ('t, 'p, 'd, 'g, 'o, 'av) from_result" where
  "FromStruct c typ v p0 =
     (let valFields = typeFields v
      in case FromStruct_loop c typ v p0 (list valFields) initial of
           Inl r \<Rightarrow> r
         | Inr st \<Rightarrow> FromStruct_finish typ p0 st)"

section \<open>Names and messages, as the specification words them\<close>

text \<open>The external names of the tagged fields of a record, in declaration order.\<close>

fun tagged_names :: "'g struct_field list \<Rightarrow> string list" where
  "tagged_names [] = []"
| "tagged_names (f # fs) =
     (case tag f of Tagged n \<Rightarrow> n # tagged_names fs | OptOut \<Rightarrow> tagged_names fs)"

text \<open>
  The text of the structural diagnostic for the names only the record has and the names
  only the object has: each non-empty set listed sorted and comma-joined.
\<close>

definition structural_message :: "string set \<Rightarrow> string set \<Rightarrow> string" where
  "structural_message recordOnly objectOnly =
     Join
       ((if recordOnly \<noteq> {} then
           [''Struct defines fields not found in object: '' @
            Join (sorted_list_of_set recordOnly) '', '' @ ''.'']
         else []) @
        (if objectOnly \<noteq> {} then
           [''Object defines fields not found in struct: '' @
            Join (sorted_list_of_set objectOnly) '', '' @ ''.'']
         else []))
       '' ''"

section \<open>Example inputs\<close>

text \<open>
  A small world to run the engines in: attribute types and other tftypes are named by
  strings, Go field values and opaque data are strings, an attr.Value is its wire form.
  The decode dispatcher stores the data of a known value and rejects anything else; the
  encode dispatcher rejects the Go value \<open>''bad''\<close>.
\<close>

type_synonym ex_value = "(string, string) tfvalue"

definition ex_collaborators ::
  "(string, string, string, string, unit, ex_value) collaborators" where
  "ex_collaborators =
     \<lparr>BuildValue = (\<lambda>t v slot opts p.
         case v of
           Value _ (OtherData d) \<Rightarrow> (d, [])
         | _ \<Rightarrow> (slot, [Diagnostic SeverityError p ''unhandled value''])),
      FromValue = (\<lambda>t g p.
         (Value (OtherType (case t of Some n \<Rightarrow> n | None \<Rightarrow> ''DynamicPseudoType''))
            (OtherData g),
          if g = ''bad'' then [Diagnostic SeverityError p ''cannot convert''] else [])),
      TerraformType = OtherType,
      ToTerraformValue = Inr\<rparr>"

definition ex_typ :: "(string, string, string, ex_value) type_with_attribute_types" where
  "ex_typ =
     \<lparr>type_name = ''types.ObjectType'',
      AttributeTypes = map_of [(''name'', Some ''String''), (''age'', Some ''Number'')],
      Validate = None,
      ValueFromTerraform = (\<lambda>attrTypes v. Inr v)\<rparr>"

definition ex_person :: "string rvalue" where
  "ex_person =
     StructValue ''Person''
       [StructField (Tagged ''name'') [] ''Ana'', StructField (Tagged ''age'') ''0'' ''30'']"

definition ex_object :: ex_value where
  "ex_object =
     Value (Object [(''name'', OtherType ''String''), (''age'', OtherType ''Number'')])
       (Attributes
          [(''name'', Value (OtherType ''String'') (OtherData ''Ana'')),
           (''age'', Value (OtherType ''Number'') (OtherData ''30''))])"

text \<open>A record with a field the object lacks, and an object with one attribute.\<close>

definition ex_extra :: "string rvalue" where
  "ex_extra =
     StructValue ''WithExtra''
       [StructField (Tagged ''name'') [] [], StructField (Tagged ''extra'') [] []]"

definition ex_name_object :: ex_value where
  "ex_name_object =
     Value (Object [(''name'', OtherType ''String'')])
       (Attributes [(''name'', Value (OtherType ''String'') (OtherData ''Ana''))])"



text \<open>The example type with a validation hook that rejects every value at one path.\<close>

definition ex_validating :: "path \<Rightarrow> (string, string, string, ex_value) type_with_attribute_types" where
  "ex_validating rejected =
     ex_typ\<lparr>Validate :=
       Some (\<lambda>v p. if p = rejected then [Diagnostic SeverityError p ''rejected''] else [])\<rparr>"

text \<open>A record with the single field name.\<close>

definition ex_named :: "string rvalue" where
  "ex_named = StructValue ''Named'' [StructField (Tagged ''name'') [] ''Ana'']"

text \<open>A record whose only field has no directory entry and a value the dispatcher rejects.\<close>

definition ex_bad_extra :: "string rvalue" where
  "ex_bad_extra = StructValue ''OnlyExtra'' [StructField (Tagged ''extra'') [] ''bad'']"

text \<open>
  The wire form of one field as lines 155-178 compute it: the tftypes.Type of the declared
  type and the ToTerraformValue of what FromValue returns, when the directory declares
  the field, the dispatcher reports no error and the conversion succeeds.
\<close>

definition field_wire_form ::
  "('t, 'p, 'd, 'g, 'o, 'av) collaborators \<Rightarrow> ('t, 'p, 'd, 'av) type_with_attribute_types \<Rightarrow>
   'g rvalue \<Rightarrow> path \<Rightarrow> field \<Rightarrow> ('p tftype \<times> ('p, 'd) tfvalue) option" where
  "field_wire_form c ty v p0 f =
     (case AttributeTypes ty (name f) of
        Some (Some attrType) \<Rightarrow>
          (let (attrVal, attrValDiags) =
                 FromValue c (Some attrType) (fieldByIndex v (index f)) (AtName p0 (name f))
           in if HasError attrValDiags then None
              else case ToTerraformValue c attrVal of
                     Inl e \<Rightarrow> None
                   | Inr tfObjVal \<Rightarrow> Some (TerraformType c attrType, tfObjVal))
      | _ \<Rightarrow> None)"

text \<open>The paths at which an engine called FromValue, in call order.\<close>

fun FromValue_paths :: "('t, 'p, 'd, 'g, 'o, 'av) call list \<Rightarrow> path list" where
  "FromValue_paths [] = []"
| "FromValue_paths (FromValueCall _ _ p # cs) = p # FromValue_paths cs"
| "FromValue_paths (_ # cs) = FromValue_paths cs"







section \<open>Properties\<close>

subsection \<open>Diagnostics and the Field Mapper\<close>

lemma HasError_append: "HasError (xs @ ys) = (HasError xs \<or> HasError ys)"
  by (simp add: HasError_def list_ex_iff) blast

lemma HasError_Append: "HasError (Append ds0 new) = (HasError ds0 \<or> HasError new)"
proof (induction new arbitrary: ds0)
  case Nil
  show ?case by (simp add: HasError_def)
next
  case (Cons d ds)
  show ?case
    by (simp add: Cons.IH) (auto simp: HasError_def list_ex_iff)
qed

lemma names_tagged_from: "map name (tagged_from i fs) = tagged_names fs"
  by (induction fs arbitrary: i) (auto split: ftag.splits)

lemma keys_index_names: "fst ` set (index_names i l m) = set (map name l) \<union> fst ` set m"
  by (induction l arbitrary: i m) (auto simp: dom_update image_iff)

lemma distinct_index_names: "distinct (map fst m) \<Longrightarrow> distinct (map fst (index_names i l m))"
  by (induction l arbitrary: i m) (auto simp: distinct_update)

lemma names_typeFields: "map name (list (typeFields v)) = tagged_names (struct_fields v)"
  by (simp add: typeFields_def Let_def names_tagged_from)

lemma keys_nameIndex: "fst ` set (nameIndex (typeFields v)) = set (tagged_names (struct_fields v))"
  by (simp add: typeFields_def Let_def keys_index_names names_tagged_from)

lemma distinct_nameIndex: "distinct (map fst (nameIndex (typeFields v)))"
  by (simp add: typeFields_def Let_def distinct_index_names)

subsection \<open>The Reconciler\<close>

lemma set_objectMissing:
  "set (objectMissing (typeFields v) m) = set (tagged_names (struct_fields v)) - fst ` set m"
  using keys_nameIndex [of v] by (auto simp: objectMissing_def map_of_eq_None_iff)

lemma set_targetMissing:
  "set (targetMissing (typeFields v) m) = fst ` set m - set (tagged_names (struct_fields v))"
  using keys_nameIndex [of v] by (auto simp: targetMissing_def map_of_eq_None_iff)

lemma distinct_objectMissing: "distinct (objectMissing (typeFields v) m)"
  by (simp add: objectMissing_def distinct_nameIndex)

lemma distinct_targetMissing: "distinct (map fst m) \<Longrightarrow> distinct (targetMissing (typeFields v) m)"
  by (simp add: targetMissing_def)

lemma comma_sorted:
  "distinct xs \<Longrightarrow> commaSeparatedString xs = Join (sorted_list_of_set (set xs)) '', ''"
  by (simp add: commaSeparatedString_def sorted_list_of_set_sort_remdups distinct_remdups_id)

lemma missing_message_sets:
  assumes "distinct om" "distinct tm"
  shows "missing_message om tm = structural_message (set om) (set tm)"
  using assms by (simp add: missing_message_def structural_message_def comma_sorted)

lemma Struct_reconcile:
  assumes "Kind target = KStruct"
    and "object = Value t dt" and "Is_Object t"
    and "ty = TypeWithAttributeTypes attrsType"
    and "As_map object = Inr objectFields" and "distinct (map fst objectFields)"
    and "set (tagged_names (struct_fields target)) \<noteq> fst ` set objectFields"
  shows "Struct c ty object target opts p =
     Returns \<lparr>ret = target,
       diags = [DiagIntoIncompatibleType p object (Type_String target)
         (Mismatch (structural_message
            (set (tagged_names (struct_fields target)) - fst ` set objectFields)
            (fst ` set objectFields - set (tagged_names (struct_fields target)))))],
       calls = []\<rparr>"
proof -
  let ?om = "objectMissing (typeFields target) objectFields"
  let ?tm = "targetMissing (typeFields target) objectFields"
  have ne: "?om \<noteq> [] \<or> ?tm \<noteq> []"
  proof (rule ccontr)
    assume "\<not> ?thesis"
    then have "set ?om = {}" "set ?tm = {}" by simp_all
    then show False using assms(7) by (auto simp: set_objectMissing set_targetMissing)
  qed
  have msg: "missing_message ?om ?tm =
      structural_message
        (set (tagged_names (struct_fields target)) - fst ` set objectFields)
        (fst ` set objectFields - set (tagged_names (struct_fields target)))"
    using missing_message_sets [OF distinct_objectMissing distinct_targetMissing [OF assms(6)]]
    by (simp add: set_objectMissing set_targetMissing)
  show ?thesis
    using assms(1-5) ne by (simp add: Struct_def Let_def msg)
qed

text \<open>
  C1. Once Struct's preconditions hold (a struct target, an object-typed value, a type
  with an attribute-type directory, a readable field map), if the set of tagged field
  names and the key set of the object's field map differ in either direction, Struct
  returns the original target with exactly one diagnostic, whose error text lists the
  names only the struct has and the names only the object has, each list sorted and
  comma-joined, and it has called no collaborator: BuildValue is never reached.
\<close>

theorem Struct_mismatch:
  assumes "Kind target = KStruct"
    and "object = Value t dt" and "Is_Object t"
    and "typ = TypeWithAttributeTypes attrsType"
    and "As_map object = Inr objectFields" and "distinct (map fst objectFields)"
    and "set (tagged_names (struct_fields target)) \<noteq> fst ` set objectFields"
  shows "Struct c typ object target opts p =
     Returns \<lparr>ret = target,
       diags = [DiagIntoIncompatibleType p object (Type_String target)
         (Mismatch (structural_message
            (set (tagged_names (struct_fields target)) - fst ` set objectFields)
            (fst ` set objectFields - set (tagged_names (struct_fields target)))))],
       calls = []\<rparr>"
  using assms by (rule Struct_reconcile)

theorem Struct_mismatch_witness:
  "Struct ex_collaborators (TypeWithAttributeTypes ex_typ) ex_name_object ex_extra () [] =
     Returns \<lparr>ret = ex_extra,
       diags = [DiagIntoIncompatibleType [] ex_name_object ''WithExtra''
         (Mismatch ''Struct defines fields not found in object: extra.'')],
       calls = []\<rparr>"
proof -
  have "Struct ex_collaborators (TypeWithAttributeTypes ex_typ) ex_name_object ex_extra () [] =
     Returns \<lparr>ret = ex_extra,
       diags = [DiagIntoIncompatibleType [] ex_name_object (Type_String ex_extra)
         (Mismatch (structural_message
            (set (tagged_names (struct_fields ex_extra)) -
               fst ` set [(''name'', Value (OtherType ''String'') (OtherData ''Ana''))])
            (fst ` set [(''name'', Value (OtherType ''String'') (OtherData ''Ana''))] -
               set (tagged_names (struct_fields ex_extra)))))],
       calls = []\<rparr>"
    by (rule Struct_mismatch [where t = "Object [(''name'', OtherType ''String'')]"
          and dt = "Attributes [(''name'', Value (OtherType ''String'') (OtherData ''Ana''))]"
          and attrsType = ex_typ])
       (simp_all add: ex_extra_def ex_name_object_def)
  then show ?thesis
    by (simp add: ex_extra_def structural_message_def)
qed

text \<open>
  C6. When the target is not a struct, or the value is typed but not object-typed, or
  the value is typed and the supplied attr.Type is not an attr.TypeWithAttributeTypes,
  Struct returns the original target with one target/type-incompatible diagnostic and
  has called no collaborator.
\<close>

theorem Struct_incompatible:
  assumes "Kind target \<noteq> KStruct \<or>
     (\<exists>t dt. object = Value t dt \<and> (\<not> Is_Object t \<or> (\<exists>tn. typ = PlainType tn)))"
  shows "\<exists>e. (e = ExpectedStructType (Type_String target) \<or> (\<exists>t. e = MustBeAnObject t) \<or>
              (\<exists>tn. e = MustBeTypeWithAttributeTypes tn)) \<and>
     Struct c typ object target opts p =
       Returns \<lparr>ret = target,
                diags = [DiagIntoIncompatibleType p object (Type_String target) e],
                calls = []\<rparr>"
  using assms by (auto simp: Struct_def Let_def)

theorem Struct_incompatible_witness:
  "\<exists>e. Struct ex_collaborators (PlainType ''types.StringType'') ex_object ex_person () [] =
       Returns \<lparr>ret = ex_person,
                diags = [DiagIntoIncompatibleType [] ex_object ''Person'' e],
                calls = []\<rparr>"
  using Struct_incompatible [of ex_person ex_object "PlainType ''types.StringType''"
      ex_collaborators "()" "[]"]
  by (auto simp: ex_person_def ex_object_def)

subsection \<open>The decode loop\<close>



lemma HasError_Nil: "\<not> HasError []"
  by (simp add: HasError_def)




lemma ex_person_fields:
  "typeFields ex_person =
     \<lparr>list = [Field ''name'' 0, Field ''age'' 1], nameIndex = [(''name'', 0), (''age'', 1)]\<rparr>"
  by (simp add: typeFields_def ex_person_def)


subsection \<open>The encode loop\<close>

lemma FromStruct_loop_append:
  "FromStruct_loop c typ v p0 (pre @ rest) st =
     (case FromStruct_loop c typ v p0 pre st of
        Inl r \<Rightarrow> Inl r
      | Inr st' \<Rightarrow> FromStruct_loop c typ v p0 rest st')"
  by (induction pre arbitrary: st) (auto split: sum.splits)

lemma FromStruct_field_InrE:
  assumes "FromStruct_field c typ v p0 f st = Inr st'"
  obtains attrType attrVal ds tv where
    "AttributeTypes typ (name f) = Some (Some attrType)"
    "FromValue c (Some attrType) (fieldByIndex v (index f)) (AtName p0 (name f)) = (attrVal, ds)"
    "\<not> HasError (Append (sdiags st) ds)"
    "ToTerraformValue c attrVal = Inr tv"
    "objTypes st' = AList.update (name f) (TerraformType c attrType) (objTypes st)"
    "objValues st' = AList.update (name f) tv (objValues st)"
    "sdiags st' =
       (case Validate typ of
          None \<Rightarrow> Append (sdiags st) ds
        | Some validate \<Rightarrow> Append (Append (sdiags st) ds) (validate tv (AtName p0 (name f))))"
    "scalls st' =
       scalls st @
       [FromValueCall (Some attrType) (fieldByIndex v (index f)) (AtName p0 (name f)),
        ToTerraformValueCall attrVal] @
       (case Validate typ of None \<Rightarrow> [] | Some validate \<Rightarrow> [ValidateCall tv (AtName p0 (name f))])"
    "\<not> HasError (sdiags st')"
  using assms
  by (auto simp: FromStruct_field_def Let_def
      split: prod.splits if_splits option.splits sum.splits simp del: Append.simps)

lemma FromStruct_field_Inr:
  assumes "FromStruct_field c typ v p0 f st = Inr st'"
  shows "\<not> HasError (sdiags st')"
    and "fst ` set (objTypes st') = insert (name f) (fst ` set (objTypes st))"
    and "fst ` set (objValues st') = insert (name f) (fst ` set (objValues st))"
    and "\<exists>more. scalls st' = scalls st @ more \<and> (\<forall>x. ValueFromTerraformCall x \<notin> set more) \<and>
           (\<forall>x. ValidateCall x p0 \<notin> set more)"
proof -
  from assms show "\<not> HasError (sdiags st')" by (rule FromStruct_field_InrE)
  from assms show "fst ` set (objTypes st') = insert (name f) (fst ` set (objTypes st))"
    by (rule FromStruct_field_InrE) (simp add: dom_update)
  from assms show "fst ` set (objValues st') = insert (name f) (fst ` set (objValues st))"
    by (rule FromStruct_field_InrE) (simp add: dom_update)
  from assms show "\<exists>more. scalls st' = scalls st @ more \<and>
      (\<forall>x. ValueFromTerraformCall x \<notin> set more) \<and> (\<forall>x. ValidateCall x p0 \<notin> set more)"
    by (rule FromStruct_field_InrE) (auto simp: AtName_def split: option.splits)
qed

lemma FromStruct_loop_Inr:
  assumes "FromStruct_loop c typ v p0 fs st = Inr st'"
  shows "\<not> HasError (sdiags st) \<Longrightarrow> \<not> HasError (sdiags st')"
    and "fst ` set (objTypes st') = set (map name fs) \<union> fst ` set (objTypes st)"
    and "fst ` set (objValues st') = set (map name fs) \<union> fst ` set (objValues st)"
    and "\<exists>more. scalls st' = scalls st @ more \<and> (\<forall>x. ValueFromTerraformCall x \<notin> set more) \<and>
           (\<forall>x. ValidateCall x p0 \<notin> set more)"
  using assms
proof (induction fs arbitrary: st)
  case Nil
  { case 1 then show ?case by simp }
  { case 2 then show ?case by simp }
  { case 3 then show ?case by simp }
  { case 4 then show ?case by simp }
next
  case (Cons f fs)
  { case 1
    then obtain s1 where s1: "FromStruct_field c typ v p0 f st = Inr s1"
        and l: "FromStruct_loop c typ v p0 fs s1 = Inr st'"
      by (auto split: sum.splits)
    show ?case using Cons.IH(1) [OF FromStruct_field_Inr(1) [OF s1] l] . }
  { case 2
    then obtain s1 where s1: "FromStruct_field c typ v p0 f st = Inr s1"
        and l: "FromStruct_loop c typ v p0 fs s1 = Inr st'"
      by (auto split: sum.splits)
    show ?case using Cons.IH(2) [OF l] FromStruct_field_Inr(2) [OF s1] by auto }
  { case 3
    then obtain s1 where s1: "FromStruct_field c typ v p0 f st = Inr s1"
        and l: "FromStruct_loop c typ v p0 fs s1 = Inr st'"
      by (auto split: sum.splits)
    show ?case using Cons.IH(3) [OF l] FromStruct_field_Inr(3) [OF s1] by auto }
  { case 4
    then obtain s1 where s1: "FromStruct_field c typ v p0 f st = Inr s1"
        and l: "FromStruct_loop c typ v p0 fs s1 = Inr st'"
      by (auto split: sum.splits)
    show ?case using Cons.IH(4) [OF l] FromStruct_field_Inr(4) [OF s1] by auto }
qed

lemma FromStruct_field_Inl:
  assumes "FromStruct_field c typ v p0 f st = Inl r"
  shows "attr_value r = None"
    and "\<exists>more. fcalls r = scalls st @ more \<and> (\<forall>x. ValueFromTerraformCall x \<notin> set more) \<and>
           (\<forall>x. ValidateCall x p0 \<notin> set more)"
  using assms
  by (auto simp: FromStruct_field_def Let_def AtName_def
      split: prod.splits if_splits option.splits sum.splits simp del: Append.simps)

lemma FromStruct_loop_Inl:
  assumes "FromStruct_loop c typ v p0 fs st = Inl r"
  shows "attr_value r = None"
    and "\<exists>more. fcalls r = scalls st @ more \<and> (\<forall>x. ValueFromTerraformCall x \<notin> set more) \<and>
           (\<forall>x. ValidateCall x p0 \<notin> set more)"
  using assms
proof (induction fs arbitrary: st)
  case Nil
  { case 1 then show ?case by simp }
  { case 2 then show ?case by simp }
next
  case (Cons f fs)
  { case 1
    show ?case
    proof (cases "FromStruct_field c typ v p0 f st")
      case (Inl r')
      then show ?thesis using 1 FromStruct_field_Inl(1) [OF Inl] by simp
    next
      case (Inr s1)
      then show ?thesis using 1 Cons.IH(1) [of s1] by simp
    qed }
  { case 2
    show ?case
    proof (cases "FromStruct_field c typ v p0 f st")
      case (Inl r')
      then show ?thesis using 2 FromStruct_field_Inl(2) [OF Inl] by simp
    next
      case (Inr s1)
      then have l: "FromStruct_loop c typ v p0 fs s1 = Inl r" using 2 by simp
      show ?thesis using Cons.IH(2) [OF l] FromStruct_field_Inr(4) [OF Inr] by auto
    qed }
qed

lemma FromStruct_initial:
  "FromStruct c typ v p0 =
     (case FromStruct_loop c typ v p0 (list (typeFields v)) initial of
        Inl r \<Rightarrow> r
      | Inr st \<Rightarrow> FromStruct_finish typ p0 st)"
  by (simp add: FromStruct_def)

lemma FromStruct_finish_calls:
  "fcalls (FromStruct_finish typ p0 st) =
     scalls st @
     (case Validate typ of
        None \<Rightarrow> [ValueFromTerraformCall (NewValue_Object (objTypes st) (objValues st))]
      | Some validate \<Rightarrow>
          ValidateCall (NewValue_Object (objTypes st) (objValues st)) p0 #
          (if HasError (Append (sdiags st)
                 (validate (NewValue_Object (objTypes st) (objValues st)) p0))
           then []
           else [ValueFromTerraformCall (NewValue_Object (objTypes st) (objValues st))]))"
  by (simp add: FromStruct_finish_def Let_def split: option.splits sum.splits del: Append.simps)

text \<open>
  C10. The wire-form object that FromStruct hands to the validation hook at the
  unextended path and to the reconstruction is built from an attribute-type map and an
  attribute-value map whose key sets are both exactly the set of tagged field names of
  the input struct, whatever the attribute-type directory holds besides.
\<close>

theorem FromStruct_object_attributes:
  assumes "ValueFromTerraformCall tv \<in> set (fcalls (FromStruct c typ v p0)) \<or>
           ValidateCall tv p0 \<in> set (fcalls (FromStruct c typ v p0))"
  shows "\<exists>ot ov. tv = NewValue_Object ot ov \<and>
           fst ` set ot = set (tagged_names (struct_fields v)) \<and>
           fst ` set ov = set (tagged_names (struct_fields v))"
proof (cases "FromStruct_loop c typ v p0 (list (typeFields v)) initial")
  case (Inl r)
  then have "FromStruct c typ v p0 = r" by (simp add: FromStruct_initial)
  then show ?thesis using assms FromStruct_loop_Inl(2) [OF Inl] by (auto simp: initial_def)
next
  case (Inr st)
  have k: "fst ` set (objTypes st) = set (tagged_names (struct_fields v))"
      "fst ` set (objValues st) = set (tagged_names (struct_fields v))"
    using FromStruct_loop_Inr(2,3) [OF Inr] names_typeFields [of v]
    by (simp_all add: initial_def)
  obtain more where m: "scalls st = more" "\<forall>x. ValueFromTerraformCall x \<notin> set more"
      "\<forall>x. ValidateCall x p0 \<notin> set more"
    using FromStruct_loop_Inr(4) [OF Inr] by (auto simp: initial_def)
  have "tv = NewValue_Object (objTypes st) (objValues st)"
    using assms Inr m
    by (auto simp: FromStruct_initial FromStruct_finish_calls
        split: option.splits if_splits simp del: Append.simps)
  then show ?thesis using k by blast
qed

lemma initial_no_error: "FromStruct_loop c typ v p0 pre initial = Inr st \<Longrightarrow> \<not> HasError (sdiags st)"
  using FromStruct_loop_Inr(1) [of c "typ" v p0 pre initial st]
  by (simp add: initial_def HasError_Nil)

lemma FromStruct_at_field:
  assumes "list (typeFields v) = pre @ f # rest"
    and "FromStruct_loop c typ v p0 pre initial = Inr st"
  shows "FromStruct c typ v p0 =
     (case FromStruct_field c typ v p0 f st of
        Inl r \<Rightarrow> r
      | Inr st' \<Rightarrow>
          (case FromStruct_loop c typ v p0 rest st' of
             Inl r \<Rightarrow> r
           | Inr st'' \<Rightarrow> FromStruct_finish typ p0 st''))"
  using assms by (simp add: FromStruct_initial FromStruct_loop_append split: sum.splits)

text \<open>
  C8. FromStruct has converted the fields before \<open>f\<close>, and the directory has no
  entry (or a nil entry) for the name of \<open>f\<close>. Then FromValue is called for
  \<open>f\<close> with a nil declared type, before the directory is checked, and FromStruct
  returns no value: with the dispatcher's diagnostics alone when they hold an error, and
  with the "couldn't find type information" attribute error added only when they hold
  none.
\<close>

theorem FromStruct_nil_type:
  assumes "list (typeFields v) = pre @ f # rest"
    and "FromStruct_loop c typ v p0 pre initial = Inr st"
    and "AttributeTypes typ (name f) = None \<or> AttributeTypes typ (name f) = Some None"
    and "p = AtName p0 (name f)"
    and "fieldValue = fieldByIndex v (index f)"
    and "attrValDiags = snd (FromValue c None fieldValue p)"
  shows "FromStruct c typ v p0 =
     \<lparr>attr_value = None,
      fdiags =
        (if HasError attrValDiags then Append (sdiags st) attrValDiags
         else AddAttributeError (Append (sdiags st) attrValDiags) p summary
                (CouldntFindTypeInformationAt p (type_name typ))),
      fcalls = scalls st @ [FromValueCall None fieldValue p]\<rparr>"
proof -
  have ne: "\<not> HasError (sdiags st)" using assms(2) by (rule initial_no_error)
  obtain av ds where fv: "FromValue c None fieldValue p = (av, ds)"
    by (cases "FromValue c None fieldValue p")
  have d: "(case AttributeTypes typ (name f) of None \<Rightarrow> None | Some t \<Rightarrow> t) = None"
    using assms(3) by auto
  have "FromStruct_field c typ v p0 f st =
     Inl \<lparr>attr_value = None,
      fdiags =
        (if HasError attrValDiags then Append (sdiags st) attrValDiags
         else AddAttributeError (Append (sdiags st) attrValDiags) p summary
                (CouldntFindTypeInformationAt p (type_name typ))),
      fcalls = scalls st @ [FromValueCall None fieldValue p]\<rparr>"
    using fv ne d assms(4-6)
    by (simp add: FromStruct_field_def Let_def HasError_Append del: Append.simps)
  then show ?thesis using FromStruct_at_field [OF assms(1,2)] by simp
qed

lemma FromStruct_loop_calls:
  "\<exists>more. fcalls (case FromStruct_loop c ty v p0 rest s of
             Inl r \<Rightarrow> r
           | Inr s2 \<Rightarrow> FromStruct_finish ty p0 s2) = scalls s @ more"
proof (cases "FromStruct_loop c ty v p0 rest s")
  case (Inl r)
  then show ?thesis using FromStruct_loop_Inl(2) [OF Inl] by auto
next
  case (Inr s2)
  then show ?thesis using FromStruct_loop_Inr(4) [OF Inr]
    by (auto simp: FromStruct_finish_calls simp del: Append.simps)
qed

text \<open>
  C9. The schema type implements the validation hook, FromStruct has converted the fields
  before \<open>f\<close>, and \<open>f\<close> converts to the wire-form value
  \<open>tfObjVal\<close>. Then the hook is called on \<open>tfObjVal\<close> at the path extended by
  the name of \<open>f\<close>, right after the two conversions of \<open>f\<close>; and if the hook
  reports an error, FromStruct returns no value with the diagnostics so far and makes no
  further call: the fields after \<open>f\<close> are skipped.
\<close>

theorem FromStruct_validate_field:
  assumes "list (typeFields v) = pre @ f # rest"
    and "FromStruct_loop c typ v p0 pre initial = Inr st"
    and "Validate typ = Some validate"
    and "AttributeTypes typ (name f) = Some (Some attrType)"
    and "p = AtName p0 (name f)"
    and "FromValue c (Some attrType) (fieldByIndex v (index f)) p = (attrVal, attrValDiags)"
    and "\<not> HasError attrValDiags"
    and "ToTerraformValue c attrVal = Inr tfObjVal"
  shows "(\<exists>more. fcalls (FromStruct c typ v p0) =
            scalls st @
            [FromValueCall (Some attrType) (fieldByIndex v (index f)) p,
             ToTerraformValueCall attrVal, ValidateCall tfObjVal p] @ more) \<and>
         (HasError (validate tfObjVal p) \<longrightarrow>
            FromStruct c typ v p0 =
              \<lparr>attr_value = None,
               fdiags = Append (Append (sdiags st) attrValDiags) (validate tfObjVal p),
               fcalls = scalls st @
                 [FromValueCall (Some attrType) (fieldByIndex v (index f)) p,
                  ToTerraformValueCall attrVal, ValidateCall tfObjVal p]\<rparr>)"
proof -
  have ne: "\<not> HasError (sdiags st)" using assms(2) by (rule initial_no_error)
  let ?calls = "scalls st @
                 [FromValueCall (Some attrType) (fieldByIndex v (index f)) p,
                  ToTerraformValueCall attrVal, ValidateCall tfObjVal p]"
  let ?diags = "Append (Append (sdiags st) attrValDiags) (validate tfObjVal p)"
  have step: "FromStruct_field c typ v p0 f st =
      (if HasError (validate tfObjVal p) then
         Inl \<lparr>attr_value = None, fdiags = ?diags, fcalls = ?calls\<rparr>
       else
         Inr \<lparr>objTypes = AList.update (name f) (TerraformType c attrType) (objTypes st),
              objValues = AList.update (name f) tfObjVal (objValues st),
              sdiags = ?diags, scalls = ?calls\<rparr>)"
    using assms(3-8) ne
    by (simp add: FromStruct_field_def Let_def HasError_Append del: Append.simps)
  show ?thesis
  proof (cases "HasError (validate tfObjVal p)")
    case True
    then show ?thesis using step FromStruct_at_field [OF assms(1,2)] by simp
  next
    case False
    let ?s1 = "\<lparr>objTypes = AList.update (name f) (TerraformType c attrType) (objTypes st),
              objValues = AList.update (name f) tfObjVal (objValues st),
              sdiags = ?diags, scalls = ?calls\<rparr>"
    have "FromStruct c typ v p0 =
        (case FromStruct_loop c typ v p0 rest ?s1 of
             Inl r \<Rightarrow> r
           | Inr s2 \<Rightarrow> FromStruct_finish typ p0 s2)"
      using False step FromStruct_at_field [OF assms(1,2)] by simp
    then show ?thesis using False FromStruct_loop_calls [where c = c and ty = "typ" and v = v and ?p0.0 = p0 and rest = rest and s = ?s1] by simp
  qed
qed

lemma FromValue_paths_append:
  "FromValue_paths (xs @ ys) = FromValue_paths xs @ FromValue_paths ys"
  by (induction xs rule: FromValue_paths.induct) auto

lemma set_Append: "set (Append ds0 new) = set ds0 \<union> set new"
  by (induction new arbitrary: ds0) auto

lemma update_fresh: "k \<notin> fst ` set al \<Longrightarrow> AList.update k x al = al @ [(k, x)]"
  by (induction al) auto

lemma FromStruct_field_wire:
  assumes "Validate ty = Some validate"
    and "field_wire_form c ty v p0 f = Some (t, tv)"
    and "\<not> HasError (validate tv (AtName p0 (name f)))"
    and "\<not> HasError (sdiags st)"
  shows "\<exists>st' more. FromStruct_field c ty v p0 f st = Inr st' \<and>
           objTypes st' = AList.update (name f) t (objTypes st) \<and>
           objValues st' = AList.update (name f) tv (objValues st) \<and>
           \<not> HasError (sdiags st') \<and>
           scalls st' = scalls st @ more \<and>
           FromValue_paths more = [AtName p0 (name f)] \<and>
           (\<forall>x. ValueFromTerraformCall x \<notin> set more) \<and>
           (\<forall>x. ValidateCall x p0 \<notin> set more)"
  using assms
  by (auto simp: field_wire_form_def FromStruct_field_def Let_def HasError_Append AtName_def
      split: option.splits prod.splits if_splits sum.splits simp del: Append.simps)

lemma FromStruct_loop_wire:
  assumes "Validate ty = Some validate"
    and "map (field_wire_form c ty v p0) fs = map Some wire"
    and "\<forall>(f, w) \<in> set (zip fs wire). \<not> HasError (validate (snd w) (AtName p0 (name f)))"
    and "distinct (map name fs)"
    and "set (map name fs) \<inter> fst ` set (objTypes st) = {}"
    and "set (map name fs) \<inter> fst ` set (objValues st) = {}"
    and "\<not> HasError (sdiags st)"
  shows "\<exists>st' more. FromStruct_loop c ty v p0 fs st = Inr st' \<and>
           objTypes st' = objTypes st @ zip (map name fs) (map fst wire) \<and>
           objValues st' = objValues st @ zip (map name fs) (map snd wire) \<and>
           \<not> HasError (sdiags st') \<and>
           scalls st' = scalls st @ more \<and>
           FromValue_paths more = map (\<lambda>f. AtName p0 (name f)) fs \<and>
           (\<forall>x. ValueFromTerraformCall x \<notin> set more) \<and>
           (\<forall>x. ValidateCall x p0 \<notin> set more)"
  using assms(2-7)
proof (induction fs arbitrary: st wire)
  case Nil
  then show ?case by simp
next
  case (Cons f fs)
  from Cons.prems(1) obtain w ws where wire: "wire = w # ws"
      and w: "field_wire_form c ty v p0 f = Some w"
      and ws: "map (field_wire_form c ty v p0) fs = map Some ws"
    by (cases wire) auto
  obtain t tv where wt: "w = (t, tv)" by (cases w)
  have ok: "\<not> HasError (validate tv (AtName p0 (name f)))"
    using Cons.prems(2) wire wt by simp
  obtain s1 m1 where s1: "FromStruct_field c ty v p0 f st = Inr s1"
      and t1: "objTypes s1 = AList.update (name f) t (objTypes st)"
      and v1: "objValues s1 = AList.update (name f) tv (objValues st)"
      and e1: "\<not> HasError (sdiags s1)"
      and c1: "scalls s1 = scalls st @ m1" "FromValue_paths m1 = [AtName p0 (name f)]"
        "\<forall>x. ValueFromTerraformCall x \<notin> set m1" "\<forall>x. ValidateCall x p0 \<notin> set m1"
    using FromStruct_field_wire [OF assms(1) w [unfolded wt] ok Cons.prems(6)] by blast
  have ft: "name f \<notin> fst ` set (objTypes st)" and fv: "name f \<notin> fst ` set (objValues st)"
    using Cons.prems(4,5) by auto
  have t1': "objTypes s1 = objTypes st @ [(name f, t)]" using t1 ft by (simp add: update_fresh)
  have v1': "objValues s1 = objValues st @ [(name f, tv)]" using v1 fv by (simp add: update_fresh)
  have d: "distinct (map name fs)" and nf: "name f \<notin> set (map name fs)"
    using Cons.prems(3) by simp_all
  have i1: "set (map name fs) \<inter> fst ` set (objTypes s1) = {}"
    using Cons.prems(4) nf t1' by auto
  have i2: "set (map name fs) \<inter> fst ` set (objValues s1) = {}"
    using Cons.prems(5) nf v1' by auto
  have h2: "\<forall>(f, w) \<in> set (zip fs ws). \<not> HasError (validate (snd w) (AtName p0 (name f)))"
    using Cons.prems(2) wire by auto
  obtain s2 m2 where s2: "FromStruct_loop c ty v p0 fs s1 = Inr s2"
      and t2: "objTypes s2 = objTypes s1 @ zip (map name fs) (map fst ws)"
      and v2: "objValues s2 = objValues s1 @ zip (map name fs) (map snd ws)"
      and e2: "\<not> HasError (sdiags s2)"
      and c2: "scalls s2 = scalls s1 @ m2" "FromValue_paths m2 = map (\<lambda>f. AtName p0 (name f)) fs"
        "\<forall>x. ValueFromTerraformCall x \<notin> set m2" "\<forall>x. ValidateCall x p0 \<notin> set m2"
    using Cons.IH [OF ws h2 d i1 i2 e1] by blast
  have "FromStruct_loop c ty v p0 (f # fs) st = Inr s2" using s1 s2 by simp
  moreover have "objTypes s2 = objTypes st @ zip (map name (f # fs)) (map fst wire)"
    using t2 t1' wire wt by simp
  moreover have "objValues s2 = objValues st @ zip (map name (f # fs)) (map snd wire)"
    using v2 v1' wire wt by simp
  moreover have "scalls s2 = scalls st @ (m1 @ m2)" using c1(1) c2(1) by simp
  moreover have "FromValue_paths (m1 @ m2) = map (\<lambda>f. AtName p0 (name f)) (f # fs)"
    using c1(2) c2(2) by (simp add: FromValue_paths_append)
  moreover have "\<forall>x. ValueFromTerraformCall x \<notin> set (m1 @ m2)" using c1(3) c2(3) by simp
  moreover have "\<forall>x. ValidateCall x p0 \<notin> set (m1 @ m2)" using c1(4) c2(4) by simp
  ultimately show ?case using e2 by blast
qed

text \<open>
  C7. The schema type implements the validation hook, the tagged names are distinct, and
  every field converts: the directory declares it, FromValue reports no error, its
  result has the wire form \<open>snd w\<close>, and the per-field hook accepts it. Then FromStruct
  calls the hook on the assembled object \<open>tfVal\<close>, whose type map and value map hold,
  per field in declaration order, the declared tftypes.Type and that wire-form value, at
  the unextended path; the calls before it are those of the loop, with FromValue called
  for every field and no reconstruction; and ValueFromTerraform is called after the hook
  only when the hook reports no error. When the hook reports an error, FromStruct returns
  no value, with diagnostics that hold the hook's.
\<close>

theorem FromStruct_validate_object:
  assumes "Validate ty = Some validate"
    and "distinct (map name (list (typeFields v)))"
    and "map (field_wire_form c ty v p0) (list (typeFields v)) = map Some wire"
    and "\<forall>(f, w) \<in> set (zip (list (typeFields v)) wire).
           \<not> HasError (validate (snd w) (AtName p0 (name f)))"
    and "tfVal = NewValue_Object (zip (map name (list (typeFields v))) (map fst wire))
                   (zip (map name (list (typeFields v))) (map snd wire))"
  shows "(\<exists>before. fcalls (FromStruct c ty v p0) =
            before @ ValidateCall tfVal p0 #
              (if HasError (validate tfVal p0) then [] else [ValueFromTerraformCall tfVal]) \<and>
            FromValue_paths before = map (\<lambda>f. AtName p0 (name f)) (list (typeFields v)) \<and>
            (\<forall>x. ValueFromTerraformCall x \<notin> set before) \<and>
            (\<forall>x. ValidateCall x p0 \<notin> set before)) \<and>
         (HasError (validate tfVal p0) \<longrightarrow>
            attr_value (FromStruct c ty v p0) = None \<and>
            HasError (fdiags (FromStruct c ty v p0)) \<and>
            set (validate tfVal p0) \<subseteq> set (fdiags (FromStruct c ty v p0)))"
proof -
  obtain st more where l: "FromStruct_loop c ty v p0 (list (typeFields v)) initial = Inr st"
      and ot: "objTypes st = zip (map name (list (typeFields v))) (map fst wire)"
      and ov: "objValues st = zip (map name (list (typeFields v))) (map snd wire)"
      and ne: "\<not> HasError (sdiags st)"
      and cs: "scalls st = more"
        "FromValue_paths more = map (\<lambda>f. AtName p0 (name f)) (list (typeFields v))"
        "\<forall>x. ValueFromTerraformCall x \<notin> set more" "\<forall>x. ValidateCall x p0 \<notin> set more"
    using FromStruct_loop_wire [OF assms(1,3,4,2), of initial]
    by (auto simp: initial_def HasError_Nil)
  have tf: "tfVal = NewValue_Object (objTypes st) (objValues st)"
    using assms(5) ot ov by simp
  have F: "FromStruct c ty v p0 = FromStruct_finish ty p0 st"
    using l by (simp add: FromStruct_initial)
  have calls: "fcalls (FromStruct c ty v p0) =
      more @ ValidateCall tfVal p0 #
        (if HasError (validate tfVal p0) then [] else [ValueFromTerraformCall tfVal])"
    using assms(1) tf cs(1) ne
    by (simp add: F FromStruct_finish_calls HasError_Append del: Append.simps)
  have e: "HasError (validate tfVal p0) \<Longrightarrow>
      FromStruct_finish ty p0 st =
        \<lparr>attr_value = None, fdiags = Append (sdiags st) (validate tfVal p0),
         fcalls = scalls st @ [ValidateCall tfVal p0]\<rparr>"
    using assms(1) tf
    by (simp add: FromStruct_finish_def Let_def HasError_Append del: Append.simps)
  show ?thesis
    using calls cs(2-4) e
    by (auto simp: F HasError_Append set_Append simp del: Append.simps)
qed

lemmas ex_defs = ex_collaborators_def ex_typ_def ex_person_def ex_object_def ex_extra_def
  ex_name_object_def ex_validating_def ex_named_def

lemmas run_defs = FromStruct_def FromStruct_field_def FromStruct_finish_def typeFields_def
  Let_def AtName_def NewValue_Object_def HasError_def AddAttributeError_def initial_def

theorem FromStruct_object_attributes_witness:
  "ValueFromTerraformCall ex_name_object \<in>
     set (fcalls (FromStruct ex_collaborators ex_typ ex_named [])) \<and>
   (\<exists>ot ov. ex_name_object = NewValue_Object ot ov \<and> fst ` set ot = {''name''} \<and>
      fst ` set ov = {''name''})"
proof -
  have m: "ValueFromTerraformCall ex_name_object \<in>
     set (fcalls (FromStruct ex_collaborators ex_typ ex_named []))"
    by (simp add: ex_defs run_defs)
  show ?thesis
    using FromStruct_object_attributes [OF disjI1 [OF m]] m by (simp add: ex_named_def)
qed

theorem FromStruct_validate_object_witness:
  "(\<exists>before. fcalls (FromStruct ex_collaborators (ex_validating []) ex_person []) =
       before @ [ValidateCall ex_object []] \<and>
     FromValue_paths before = [[PathStepAttributeName ''name''], [PathStepAttributeName ''age'']]) \<and>
   attr_value (FromStruct ex_collaborators (ex_validating []) ex_person []) = None \<and>
   HasError (fdiags (FromStruct ex_collaborators (ex_validating []) ex_person []))"
proof -
  have v: "Validate (ex_validating []) =
      Some (\<lambda>v p. if p = [] then [Diagnostic SeverityError p ''rejected''] else [])"
    by (simp add: ex_validating_def)
  have d: "distinct (map name (list (typeFields ex_person)))"
    by (simp add: ex_person_fields)
  have w: "map (field_wire_form ex_collaborators (ex_validating []) ex_person [])
      (list (typeFields ex_person)) =
      map Some [(OtherType ''String'', Value (OtherType ''String'') (OtherData ''Ana'')),
                (OtherType ''Number'', Value (OtherType ''Number'') (OtherData ''30''))]"
    by (simp add: ex_person_fields)
       (simp add: field_wire_form_def ex_defs AtName_def HasError_def)
  have h: "\<forall>(f, w) \<in> set (zip (list (typeFields ex_person))
        [(OtherType ''String'', Value (OtherType ''String'') (OtherData ''Ana'')),
         (OtherType ''Number'', Value (OtherType ''Number'') (OtherData ''30''))]).
      \<not> HasError ((\<lambda>v p. if p = [] then [Diagnostic SeverityError p ''rejected''] else [])
          (snd w) (AtName [] (name f)))"
    by (simp add: ex_person_fields AtName_def HasError_def)
  have t: "ex_object = NewValue_Object
      (zip (map name (list (typeFields ex_person)))
         (map fst [(OtherType ''String'', Value (OtherType ''String'') (OtherData ''Ana'')),
                   (OtherType ''Number'', Value (OtherType ''Number'') (OtherData ''30''))]))
      (zip (map name (list (typeFields ex_person)))
         (map snd [(OtherType ''String'', Value (OtherType ''String'') (OtherData ''Ana'')),
                   (OtherType ''Number'', Value (OtherType ''Number'') (OtherData ''30''))]))"
    by (simp add: ex_person_fields ex_object_def NewValue_Object_def)
  have e: "HasError ((\<lambda>v p. if p = [] then [Diagnostic SeverityError p ''rejected''] else [])
      ex_object [])"
    by (simp add: HasError_def)
  show ?thesis
    using FromStruct_validate_object [OF v d w h t] e
    by (auto simp: ex_person_fields AtName_def)
qed

theorem FromStruct_nil_type_witness:
  "FromStruct ex_collaborators ex_typ ex_extra [] =
     \<lparr>attr_value = None,
      fdiags = [AttributeError [PathStepAttributeName ''extra''] summary
         (CouldntFindTypeInformationAt [PathStepAttributeName ''extra''] ''types.ObjectType'')],
      fcalls =
        [FromValueCall (Some ''String'') [] [PathStepAttributeName ''name''],
         ToTerraformValueCall (Value (OtherType ''String'') (OtherData [])),
         FromValueCall None [] [PathStepAttributeName ''extra'']]\<rparr>"
proof -
  have t: "list (typeFields ex_extra) = [Field ''name'' 0] @ Field ''extra'' 1 # []"
    by (simp add: ex_defs run_defs)
  obtain st where l: "FromStruct_loop ex_collaborators ex_typ ex_extra [] [Field ''name'' 0]
      initial = Inr st" and d: "sdiags st = []"
    and c: "scalls st = [FromValueCall (Some ''String'') [] [PathStepAttributeName ''name''],
         ToTerraformValueCall (Value (OtherType ''String'') (OtherData []))]"
    by (simp add: ex_defs run_defs)
  have a: "AttributeTypes ex_typ (name (Field ''extra'' 1)) = None \<or>
      AttributeTypes ex_typ (name (Field ''extra'' 1)) = Some None"
    by (simp add: ex_typ_def)
  show ?thesis
    using FromStruct_nil_type [OF t l a refl refl refl] d c
    by (simp add: ex_defs run_defs)
qed

theorem FromStruct_validate_field_witness:
  "FromStruct ex_collaborators (ex_validating [PathStepAttributeName ''name'']) ex_person [] =
     \<lparr>attr_value = None,
      fdiags = [Diagnostic SeverityError [PathStepAttributeName ''name''] ''rejected''],
      fcalls =
        [FromValueCall (Some ''String'') ''Ana'' [PathStepAttributeName ''name''],
         ToTerraformValueCall (Value (OtherType ''String'') (OtherData ''Ana'')),
         ValidateCall (Value (OtherType ''String'') (OtherData ''Ana''))
           [PathStepAttributeName ''name'']]\<rparr>"
proof -
  have t: "list (typeFields ex_person) = [] @ Field ''name'' 0 # [Field ''age'' 1]"
    by (simp add: ex_defs run_defs)
  have l: "FromStruct_loop ex_collaborators (ex_validating [PathStepAttributeName ''name''])
      ex_person [] [] initial = Inr initial"
    by simp
  have v: "Validate (ex_validating [PathStepAttributeName ''name'']) =
      Some (\<lambda>v p. if p = [PathStepAttributeName ''name'']
                   then [Diagnostic SeverityError p ''rejected''] else [])"
    by (simp add: ex_validating_def)
  have a: "AttributeTypes (ex_validating [PathStepAttributeName ''name''])
      (name (Field ''name'' 0)) = Some (Some ''String'')"
    by (simp add: ex_defs)
  have f: "FromValue ex_collaborators (Some ''String'')
      (fieldByIndex ex_person (index (Field ''name'' 0)))
      (AtName [] (name (Field ''name'' 0))) =
      (Value (OtherType ''String'') (OtherData ''Ana''), [])"
    by (simp add: ex_defs run_defs)
  have tt: "ToTerraformValue ex_collaborators (Value (OtherType ''String'') (OtherData ''Ana'')) =
      Inr (Value (OtherType ''String'') (OtherData ''Ana''))"
    by (simp add: ex_defs)
  show ?thesis
    using FromStruct_validate_field [OF t l v a refl f HasError_Nil tt]
    by (simp add: ex_defs run_defs)
qed

subsection \<open>Fields without a counterpart\<close>

lemma Join_contains: "y \<in> set xs \<Longrightarrow> \<exists>a b. Join xs sep = a @ y @ b"
proof (induction xs sep rule: Join.induct)
  case (1 sep)
  then show ?case by simp
next
  case (2 x sep)
  then have "Join [x] sep = [] @ y @ []" by simp
  then show ?case by blast
next
  case (3 x z zs sep)
  show ?case
  proof (cases "y = x")
    case True
    then have "Join (x # z # zs) sep = [] @ y @ (sep @ Join (z # zs) sep)" by simp
    then show ?thesis by blast
  next
    case False
    then obtain a b where "Join (z # zs) sep = a @ y @ b" using 3 by auto
    then have "Join (x # z # zs) sep = (x @ sep @ a) @ y @ b" by simp
    then show ?thesis by blast
  qed
qed


lemma structural_message_struct_side:
  assumes "finite recordOnly" "x \<in> recordOnly"
  shows "\<exists>b c d. structural_message recordOnly objectOnly =
     ''Struct defines fields not found in object: '' @ b @ x @ c @ ''.'' @ d"
proof -
  have "x \<in> set (sorted_list_of_set recordOnly)" using assms by simp
  then obtain b c where j: "Join (sorted_list_of_set recordOnly) '', '' = b @ x @ c"
    using Join_contains by blast
  have ne: "recordOnly \<noteq> {}" using assms by auto
  show ?thesis
  proof (cases "objectOnly = {}")
    case True
    then have "structural_message recordOnly objectOnly =
        ''Struct defines fields not found in object: '' @ b @ x @ c @ ''.'' @ []"
      using ne j by (simp add: structural_message_def)
    then show ?thesis by blast
  next
    case False
    then have "structural_message recordOnly objectOnly =
        ''Struct defines fields not found in object: '' @ b @ x @ c @ ''.'' @
        ('' '' @ ''Object defines fields not found in struct: '' @
            Join (sorted_list_of_set objectOnly) '', '' @ ''.'')"
      using ne j by (simp add: structural_message_def)
    then show ?thesis by blast
  qed
qed


lemma HasError_AttributeError: "HasError [AttributeError p s e]"
  by (simp add: HasError_def)

lemma HasError_ToTerraformValueErrorDiag: "HasError [ToTerraformValueErrorDiag e p]"
  by (simp add: HasError_def)

lemma FromStruct_field_Inl_error:
  assumes "FromStruct_field c ty v p0 f st = Inl r"
  shows "HasError (fdiags r)"
  using assms
  by (auto simp: FromStruct_field_def Let_def AddAttributeError_def HasError_Append
      HasError_append HasError_AttributeError HasError_ToTerraformValueErrorDiag
      split: prod.splits if_splits option.splits sum.splits simp del: Append.simps)

lemma FromStruct_field_absent:
  assumes "AttributeTypes ty (name f) = None"
  shows "\<exists>r. FromStruct_field c ty v p0 f st = Inl r"
  using assms
  by (auto simp: FromStruct_field_def Let_def split: prod.splits)

lemma FromStruct_loop_absent:
  assumes "x \<in> set (map name fs)" "AttributeTypes ty x = None"
  shows "\<exists>r. FromStruct_loop c ty v p0 fs st = Inl r \<and> attr_value r = None \<and> HasError (fdiags r)"
  using assms
proof (induction fs arbitrary: st)
  case Nil
  then show ?case by simp
next
  case (Cons f fs)
  show ?case
  proof (cases "FromStruct_field c ty v p0 f st")
    case (Inl r)
    then show ?thesis
      using FromStruct_field_Inl(1) [OF Inl] FromStruct_field_Inl_error [OF Inl] by simp
  next
    case (Inr s1)
    then have "name f \<noteq> x" using FromStruct_field_absent [of ty f c v p0 st] Cons.prems(2) by auto
    then have "x \<in> set (map name fs)" using Cons.prems(1) by simp
    then show ?thesis using Cons.IH [OF _ Cons.prems(2), of s1] Inr by simp
  qed
qed

text \<open>
  What the code enforces for a field only the struct has. Once Struct's preconditions
  hold, if the struct has a tagged field \<open>x\<close> that the object's field map lacks,
  Struct returns the original target with one diagnostic whose error text names
  \<open>x\<close> in the list that follows "Struct defines fields not found in object: ". If
  the struct has a tagged field \<open>x\<close> without an entry in the attribute-type
  directory, FromStruct returns no value and diagnostics that hold an error.
\<close>

lemma struct_only_field:
  "(Kind target = KStruct \<and> object = Value t dt \<and> Is_Object t \<and>
    ty = TypeWithAttributeTypes attrsType \<and> As_map object = Inr objectFields \<and>
    distinct (map fst objectFields) \<and>
    x \<in> set (tagged_names (struct_fields target)) \<and> x \<notin> fst ` set objectFields \<longrightarrow>
    (\<exists>b c d. Struct c0 ty object target opts p =
       Returns \<lparr>ret = target,
         diags = [DiagIntoIncompatibleType p object (Type_String target)
           (Mismatch (''Struct defines fields not found in object: '' @ b @ x @ c @ ''.'' @ d))],
         calls = []\<rparr>)) \<and>
   (x \<in> set (tagged_names (struct_fields v)) \<and> AttributeTypes tw x = None \<longrightarrow>
    attr_value (FromStruct c0 tw v p0) = None \<and> HasError (fdiags (FromStruct c0 tw v p0)))"
proof (intro conjI impI)
  assume h: "Kind target = KStruct \<and> object = Value t dt \<and> Is_Object t \<and>
    ty = TypeWithAttributeTypes attrsType \<and> As_map object = Inr objectFields \<and>
    distinct (map fst objectFields) \<and>
    x \<in> set (tagged_names (struct_fields target)) \<and> x \<notin> fst ` set objectFields"
  then have ne: "set (tagged_names (struct_fields target)) \<noteq> fst ` set objectFields"
    by auto
  have "x \<in> set (tagged_names (struct_fields target)) - fst ` set objectFields"
    using h by simp
  then obtain b c d where
    "structural_message
       (set (tagged_names (struct_fields target)) - fst ` set objectFields)
       (fst ` set objectFields - set (tagged_names (struct_fields target))) =
     ''Struct defines fields not found in object: '' @ b @ x @ c @ ''.'' @ d"
    using structural_message_struct_side
      [of "set (tagged_names (struct_fields target)) - fst ` set objectFields" x]
    by blast
  then show "\<exists>b c d. Struct c0 ty object target opts p =
       Returns \<lparr>ret = target,
         diags = [DiagIntoIncompatibleType p object (Type_String target)
           (Mismatch (''Struct defines fields not found in object: '' @ b @ x @ c @ ''.'' @ d))],
         calls = []\<rparr>"
    using Struct_reconcile [of target object t dt ty attrsType objectFields c0 opts p] h ne
    by metis
next
  assume h: "x \<in> set (tagged_names (struct_fields v)) \<and> AttributeTypes tw x = None"
  then have "x \<in> set (map name (list (typeFields v)))" by (simp add: names_typeFields)
  then obtain r where "FromStruct_loop c0 tw v p0 (list (typeFields v)) initial = Inl r"
      "attr_value r = None" "HasError (fdiags r)"
    using FromStruct_loop_absent [of x "list (typeFields v)" tw c0 v p0 initial] h by auto
  then show "attr_value (FromStruct c0 tw v p0) = None" "HasError (fdiags (FromStruct c0 tw v p0))"
    by (simp_all add: FromStruct_initial)
qed



text \<open>
  C4. The code at a failing input. The record \<open>ex_bad_extra\<close> has the tagged field
  \<open>extra\<close>, which the directory of \<open>ex_typ\<close> lacks. FromStruct calls FromValue for
  it with the nil type before it looks at the directory (line 155 before lines 162-171,
  where Struct looks first, lines 112-123); the dispatcher reports an error, and
  FromStruct returns the dispatcher's diagnostic alone: the "couldn't find type
  information" error for \<open>extra\<close> is not among the diagnostics.
\<close>

theorem FromStruct_dispatch_before_directory_check:
  "''extra'' \<in> set (tagged_names (struct_fields ex_bad_extra)) \<and>
   AttributeTypes ex_typ ''extra'' = None \<and>
   FromStruct ex_collaborators ex_typ ex_bad_extra [] =
     \<lparr>attr_value = None,
      fdiags = [Diagnostic SeverityError [PathStepAttributeName ''extra''] ''cannot convert''],
      fcalls = [FromValueCall None ''bad'' [PathStepAttributeName ''extra'']]\<rparr> \<and>
   AttributeError [PathStepAttributeName ''extra''] summary
       (CouldntFindTypeInformationAt [PathStepAttributeName ''extra''] ''types.ObjectType'')
     \<notin> set (fdiags (FromStruct ex_collaborators ex_typ ex_bad_extra []))"
  by (simp add: ex_defs run_defs ex_bad_extra_def)

lemma struct_only_field_example:
  "(\<exists>b c d. Struct ex_collaborators (TypeWithAttributeTypes ex_typ) ex_name_object ex_extra () [] =
       Returns \<lparr>ret = ex_extra,
         diags = [DiagIntoIncompatibleType [] ex_name_object ''WithExtra''
           (Mismatch (''Struct defines fields not found in object: '' @ b @ ''extra'' @ c @
              ''.'' @ d))],
         calls = []\<rparr>) \<and>
   attr_value (FromStruct ex_collaborators ex_typ ex_extra []) = None \<and>
   HasError (fdiags (FromStruct ex_collaborators ex_typ ex_extra []))"
  using struct_only_field [where target = ex_extra and object = ex_name_object
      and t = "Object [(''name'', OtherType ''String'')]"
      and dt = "Attributes [(''name'', Value (OtherType ''String'') (OtherData ''Ana''))]"
      and ty = "TypeWithAttributeTypes ex_typ" and attrsType = ex_typ
      and objectFields = "[(''name'', Value (OtherType ''String'') (OtherData ''Ana''))]"
      and x = "''extra''" and ?c0.0 = ex_collaborators and opts = "()" and p = "[]"
      and v = ex_extra and tw = ex_typ and ?p0.0 = "[]"]
  by (simp add: ex_extra_def ex_name_object_def ex_typ_def)

subsection \<open>Round trip\<close>


















end
